theory Spec2Isabelle
  imports Complex_Main
begin

section \<open>Python exceptions, names and scopes\<close>

text \<open>
  The exceptions the modelled functions can raise. Every function of the development
  returns \<open>exn + 'a\<close>: \<open>Inl e\<close> is the exception \<open>e\<close> propagating to the caller,
  \<open>Inr v\<close> is a normal return of \<open>v\<close>. \<open>ValueError\<close> is Python's invalid-argument
  error; \<open>KeyError\<close> is the key-lookup error of a mapping or of a table's column
  lookup; \<open>NameError\<close> is the undefined-name error and carries the name.
\<close>

datatype exn =
    NameError string
  | KeyError string
  | IndexError
  | ValueError
  | TypeError
  | FileNotFoundError string

text \<open>
  numpy's float64, with the three special values written out. A finite value is
  the real number it denotes, and the two signed zeros are one value. Two sets of
  operations work on it: exact ones (\<open>f_add\<close> and the like), used where what is
  proved does not turn on rounding, and ones rounded to binary64 (\<open>r_add\<close> and the
  like), used for the values that \<open>stacked_transits\<close> computes and draws.
\<close>

datatype float64 = Num real | PosInf | NegInf | NaN

text \<open>A two-dimensional numpy array: its shape and its cells by (row, column).\<close>

record ndarray =
  nrows :: nat
  ncols :: nat
  cells :: "nat \<Rightarrow> nat \<Rightarrow> float64"

text \<open>
  The objects a module-level name can be bound to: an imported module, a function or
  class, a list of strings (\<open>__all__\<close>), a string, a built-in, or a stack of frames
  (a sequence of two-dimensional arrays).
\<close>

datatype pyobj =
    Module string
  | Function string
  | Class string
  | StrList "string list"
  | Str string
  | Builtin string
  | Frames "ndarray list"

type_synonym namespace = "(string \<times> pyobj) list"

text \<open>
  The names that the text of \<open>nirhiss/utils.py\<close> binds at module level: the four
  imports (lines 1-4), \<open>__all__\<close> (line 6), the five functions, and the attributes
  every module has.
\<close>

definition utils_globals :: namespace where
  "utils_globals =
     [(''np'', Module ''numpy''),
      (''tqdm'', Class ''tqdm.tqdm''),
      (''Table'', Class ''astropy.table.Table''),
      (''ts'', Module ''transitspectroscopy''),
      (''__all__'', StrList [''scaling_image_regions'', ''bin_at_resolution'',
                             ''chromatic_writer'', ''exotep_to_ers_format'',
                             ''get_MAD_sigma'']),
      (''scaling_image_regions'', Function ''scaling_image_regions''),
      (''chromatic_writer'', Function ''chromatic_writer''),
      (''exotep_to_ers_format'', Function ''exotep_to_ers_format''),
      (''bin_at_resolution'', Function ''bin_at_resolution''),
      (''get_MAD_sigma'', Function ''get_MAD_sigma''),
      (''__name__'', Str ''nirhiss.utils''),
      (''__doc__'', Str ''''),
      (''__package__'', Str ''nirhiss''),
      (''__loader__'', Str ''loader''),
      (''__spec__'', Str ''spec''),
      (''__file__'', Str ''utils.py''),
      (''__cached__'', Str ''utils.pyc''),
      (''__builtins__'', Module ''builtins'')]"

text \<open>The names of Python 3's \<open>builtins\<close> module: functions, constants, exceptions.\<close>

definition builtin_names :: "string list" where
  "builtin_names =
     [''abs'', ''aiter'', ''all'', ''anext'', ''any'', ''ascii'', ''bin'', ''bool'',
      ''breakpoint'', ''bytearray'', ''bytes'', ''callable'', ''chr'', ''classmethod'',
      ''compile'', ''complex'', ''delattr'', ''dict'', ''dir'', ''divmod'',
      ''enumerate'', ''eval'', ''exec'', ''filter'', ''float'', ''format'',
      ''frozenset'', ''getattr'', ''globals'', ''hasattr'', ''hash'', ''help'', ''hex'',
      ''id'', ''input'', ''int'', ''isinstance'', ''issubclass'', ''iter'', ''len'',
      ''list'', ''locals'', ''map'', ''max'', ''memoryview'', ''min'', ''next'',
      ''object'', ''oct'', ''open'', ''ord'', ''pow'', ''print'', ''property'',
      ''range'', ''repr'', ''reversed'', ''round'', ''set'', ''setattr'', ''slice'',
      ''sorted'', ''staticmethod'', ''str'', ''sum'', ''super'', ''tuple'', ''type'',
      ''vars'', ''zip'', ''__import__'', ''__build_class__'', ''__debug__'',
      ''True'', ''False'', ''None'', ''Ellipsis'', ''NotImplemented'',
      ''copyright'', ''credits'', ''license'', ''exit'', ''quit'',
      ''BaseException'', ''BaseExceptionGroup'', ''Exception'', ''ExceptionGroup'',
      ''ArithmeticError'', ''AssertionError'', ''AttributeError'',
      ''BlockingIOError'', ''BrokenPipeError'', ''BufferError'', ''BytesWarning'',
      ''ChildProcessError'', ''ConnectionAbortedError'', ''ConnectionError'',
      ''ConnectionRefusedError'', ''ConnectionResetError'', ''DeprecationWarning'',
      ''EOFError'', ''EncodingWarning'', ''EnvironmentError'', ''FileExistsError'',
      ''FileNotFoundError'', ''FloatingPointError'', ''FutureWarning'',
      ''GeneratorExit'', ''IOError'', ''ImportError'', ''ImportWarning'',
      ''IndentationError'', ''IndexError'', ''InterruptedError'',
      ''IsADirectoryError'', ''KeyError'', ''KeyboardInterrupt'', ''LookupError'',
      ''MemoryError'', ''ModuleNotFoundError'', ''NameError'', ''NotADirectoryError'',
      ''NotImplementedError'', ''OSError'', ''OverflowError'',
      ''PendingDeprecationWarning'', ''PermissionError'', ''ProcessLookupError'',
      ''RecursionError'', ''ReferenceError'', ''ResourceWarning'', ''RuntimeError'',
      ''RuntimeWarning'', ''StopAsyncIteration'', ''StopIteration'', ''SyntaxError'',
      ''SyntaxWarning'', ''SystemError'', ''SystemExit'', ''TabError'',
      ''TimeoutError'', ''TypeError'', ''UnboundLocalError'', ''UnicodeDecodeError'',
      ''UnicodeEncodeError'', ''UnicodeError'', ''UnicodeTranslateError'',
      ''UnicodeWarning'', ''UserWarning'', ''ValueError'', ''Warning'',
      ''ZeroDivisionError'']"

text \<open>
  Reading a name that is not a local variable of the function (\<open>LOAD_GLOBAL\<close>): the
  module's namespace first, then the built-ins, and NameError when neither binds
  it. The module namespace is the bindings of the module text, \<open>utils_globals\<close>,
  together with \<open>added\<close>: the names that the running process has bound in the module
  beyond those (an empty list for the module as imported). A binding of \<open>added\<close> for
  a name that the module text or the built-ins bind is not read: the model covers the
  namespaces that leave the imports and the built-ins as they are.
\<close>

definition resolve :: "namespace \<Rightarrow> string \<Rightarrow> exn + pyobj" where
  "resolve added name =
     (case map_of utils_globals name of
        Some v \<Rightarrow> Inr v
      | None \<Rightarrow>
          if name \<in> set builtin_names then Inr (Builtin name)
          else (case map_of added name of
                  Some v \<Rightarrow> Inr v
                | None \<Rightarrow> Inl (NameError name)))"

section \<open>float64 arithmetic\<close>

fun f_neg :: "float64 \<Rightarrow> float64" where
  "f_neg (Num x) = Num (- x)"
| "f_neg PosInf = NegInf"
| "f_neg NegInf = PosInf"
| "f_neg NaN = NaN"

fun f_add :: "float64 \<Rightarrow> float64 \<Rightarrow> float64" where
  "f_add NaN _ = NaN"
| "f_add _ NaN = NaN"
| "f_add (Num x) (Num y) = Num (x + y)"
| "f_add PosInf NegInf = NaN"
| "f_add NegInf PosInf = NaN"
| "f_add PosInf _ = PosInf"
| "f_add NegInf _ = NegInf"
| "f_add (Num x) PosInf = PosInf"
| "f_add (Num x) NegInf = NegInf"

definition f_sub :: "float64 \<Rightarrow> float64 \<Rightarrow> float64" where
  "f_sub a b = f_add a (f_neg b)"

text \<open>The infinity of the sign of a real, for a product or quotient with an infinity.\<close>

definition inf_of_sign :: "real \<Rightarrow> float64" where
  "inf_of_sign x = (if x = 0 then NaN else if 0 < x then PosInf else NegInf)"

fun f_mul :: "float64 \<Rightarrow> float64 \<Rightarrow> float64" where
  "f_mul NaN _ = NaN"
| "f_mul _ NaN = NaN"
| "f_mul (Num x) (Num y) = Num (x * y)"
| "f_mul (Num x) PosInf = inf_of_sign x"
| "f_mul (Num x) NegInf = inf_of_sign (- x)"
| "f_mul PosInf (Num y) = inf_of_sign y"
| "f_mul NegInf (Num y) = inf_of_sign (- y)"
| "f_mul PosInf PosInf = PosInf"
| "f_mul NegInf NegInf = PosInf"
| "f_mul PosInf NegInf = NegInf"
| "f_mul NegInf PosInf = NegInf"

text \<open>
  Division as numpy does it on float64: a zero divisor gives an infinity or NaN (and
  a warning), never an exception.
\<close>

fun f_div :: "float64 \<Rightarrow> float64 \<Rightarrow> float64" where
  "f_div NaN _ = NaN"
| "f_div _ NaN = NaN"
| "f_div (Num x) (Num y) = (if y = 0 then inf_of_sign x else Num (x / y))"
| "f_div (Num x) PosInf = Num 0"
| "f_div (Num x) NegInf = Num 0"
| "f_div PosInf (Num y) = (if 0 \<le> y then PosInf else NegInf)"
| "f_div NegInf (Num y) = (if 0 \<le> y then NegInf else PosInf)"
| "f_div PosInf _ = NaN"
| "f_div NegInf _ = NaN"

fun f_sqrt :: "float64 \<Rightarrow> float64" where
  "f_sqrt (Num x) = (if x < 0 then NaN else Num (sqrt x))"
| "f_sqrt PosInf = PosInf"
| "f_sqrt NegInf = NaN"
| "f_sqrt NaN = NaN"

text \<open>The comparison \<open><\<close>: false whenever an operand is NaN.\<close>

fun f_less :: "float64 \<Rightarrow> float64 \<Rightarrow> bool" where
  "f_less NaN _ = False"
| "f_less _ NaN = False"
| "f_less (Num x) (Num y) = (x < y)"
| "f_less NegInf NegInf = False"
| "f_less NegInf _ = True"
| "f_less _ NegInf = False"
| "f_less PosInf _ = False"
| "f_less (Num x) PosInf = True"


text \<open>A Python int used as a float64 operand.\<close>

definition of_py_int :: "int \<Rightarrow> float64" where
  "of_py_int k = Num (real_of_int k)"

text \<open>\<open>np.nansum\<close>: NaN entries count as zero.\<close>

definition nansum :: "float64 list \<Rightarrow> float64" where
  "nansum xs = foldl f_add (Num 0) (filter (\<lambda>x. x \<noteq> NaN) xs)"

text \<open>
  \<open>np.argmin\<close> on a one-dimensional array: the index of the first NaN if there is
  one, else the first index of the least value; ValueError on an empty array.
\<close>

fun argmin_scan :: "float64 list \<Rightarrow> nat \<Rightarrow> nat \<Rightarrow> float64 \<Rightarrow> nat" where
  "argmin_scan [] i bi bv = bi"
| "argmin_scan (x # xs) i bi bv =
     (if x = NaN then i
      else if f_less x bv then argmin_scan xs (Suc i) i x
      else argmin_scan xs (Suc i) bi bv)"

definition argmin :: "float64 list \<Rightarrow> exn + nat" where
  "argmin xs =
     (case xs of
        [] \<Rightarrow> Inl ValueError
      | x # rest \<Rightarrow> Inr (if x = NaN then 0 else argmin_scan rest 1 0 x))"

text \<open>
  \<open>np.nanmedian\<close> of a one-dimensional array: the NaN entries are dropped, the rest
  sorted; the middle element, or the mean of the two middle elements; NaN (and a
  warning) when nothing is left.
\<close>

fun f_insert :: "float64 \<Rightarrow> float64 list \<Rightarrow> float64 list" where
  "f_insert x [] = [x]"
| "f_insert x (y # ys) = (if f_less y x then y # f_insert x ys else x # y # ys)"

definition f_sort :: "float64 list \<Rightarrow> float64 list" where
  "f_sort xs = foldr f_insert xs []"

definition nanmedian :: "float64 list \<Rightarrow> float64" where
  "nanmedian xs =
     (let ys = f_sort (filter (\<lambda>x. x \<noteq> NaN) xs); n = length ys in
      if n = 0 then NaN
      else if odd n then ys ! (n div 2)
      else f_div (f_add (ys ! (n div 2 - 1)) (ys ! (n div 2))) (Num 2))"

section \<open>Array slicing and broadcasting\<close>

text \<open>
  A bound of a Python slice \<open>[lo:hi]\<close> over a dimension of length \<open>n\<close>: a negative
  bound counts from the end, and both are clamped to \<open>0..n\<close>.
\<close>

definition slice_bound :: "nat \<Rightarrow> int \<Rightarrow> nat" where
  "slice_bound n k = (if k < 0 then nat (max (k + int n) 0) else min (nat k) n)"

text \<open>\<open>a[x1:x2, y1:y2]\<close>: rows \<open>x1:x2\<close> and columns \<open>y1:y2\<close> of \<open>a\<close>.\<close>

definition region :: "ndarray \<Rightarrow> int \<Rightarrow> int \<Rightarrow> int \<Rightarrow> int \<Rightarrow> ndarray" where
  "region a x1 x2 y1 y2 =
     (let r0 = slice_bound (nrows a) x1; r1 = slice_bound (nrows a) x2;
          c0 = slice_bound (ncols a) y1; c1 = slice_bound (ncols a) y2
      in \<lparr>nrows = r1 - r0, ncols = c1 - c0,
          cells = (\<lambda>i j. cells a (r0 + i) (c0 + j))\<rparr>)"

text \<open>
  numpy's broadcasting of one dimension: equal lengths, or one of them is 1 and is
  stretched to the other.
\<close>

definition bcast_dim :: "nat \<Rightarrow> nat \<Rightarrow> nat option" where
  "bcast_dim d1 d2 =
     (if d1 = d2 then Some d1
      else if d1 = 1 then Some d2
      else if d2 = 1 then Some d1
      else None)"

definition a_scale :: "ndarray \<Rightarrow> float64 \<Rightarrow> ndarray" where
  "a_scale a v = \<lparr>nrows = nrows a, ncols = ncols a,
                  cells = (\<lambda>i j. f_mul (cells a i j) v)\<rparr>"

definition a_sub :: "ndarray \<Rightarrow> ndarray \<Rightarrow> exn + ndarray" where
  "a_sub a b =
     (case bcast_dim (nrows a) (nrows b) of
        None \<Rightarrow> Inl ValueError
      | Some r \<Rightarrow>
          (case bcast_dim (ncols a) (ncols b) of
             None \<Rightarrow> Inl ValueError
           | Some c \<Rightarrow>
               Inr \<lparr>nrows = r, ncols = c,
                    cells = (\<lambda>i j.
                      f_sub (cells a (if nrows a = 1 then 0 else i)
                                     (if ncols a = 1 then 0 else j))
                            (cells b (if nrows b = 1 then 0 else i)
                                     (if ncols b = 1 then 0 else j)))\<rparr>))"

definition a_square :: "ndarray \<Rightarrow> ndarray" where
  "a_square a = \<lparr>nrows = nrows a, ncols = ncols a,
                 cells = (\<lambda>i j. f_mul (cells a i j) (cells a i j))\<rparr>"

text \<open>The cells of an array, row by row.\<close>

definition flat :: "ndarray \<Rightarrow> float64 list" where
  "flat a = concat (map (\<lambda>i. map (\<lambda>j. cells a i j) [0..<ncols a]) [0..<nrows a])"

section \<open>scaling_image_regions\<close>

text \<open>\<open>len(integrations)\<close> for the object the name resolves to.\<close>

fun py_len :: "pyobj \<Rightarrow> exn + nat" where
  "py_len (Frames fs) = Inr (length fs)"
| "py_len (StrList ss) = Inr (length ss)"
| "py_len (Str s) = Inr (length s)"
| "py_len _ = Inl TypeError"

text \<open>
  \<open>integrations[j][x1:x2,y1:y2]\<close> for \<open>j\<close> from \<open>range\<close>: IndexError past the end of the
  sequence; TypeError when element \<open>j\<close> is a string, which a pair of slices cannot
  index, or when the object cannot be indexed at all.
\<close>

fun frame_region :: "pyobj \<Rightarrow> nat \<Rightarrow> int \<Rightarrow> int \<Rightarrow> int \<Rightarrow> int \<Rightarrow> exn + ndarray" where
  "frame_region (Frames fs) j x1 x2 y1 y2 =
     (if j < length fs then Inr (region (fs ! j) x1 x2 y1 y2) else Inl IndexError)"
| "frame_region (StrList ss) j x1 x2 y1 y2 =
     (if j < length ss then Inl TypeError else Inl IndexError)"
| "frame_region (Str s) j x1 x2 y1 y2 =
     (if j < length s then Inl TypeError else Inl IndexError)"
| "frame_region _ j x1 x2 y1 y2 = Inl TypeError"

text \<open>
  Lines 57-59, the loop over the candidate scales for frame \<open>j\<close>:
  \<^verbatim>\<open>diff = integrations[j][x1:x2,y1:y2] - (bkg[x1:x2,y1:y2]*v)\<close>,
  \<^verbatim>\<open>rms[i] = np.sqrt(np.nansum(diff**2)/shape)\<close>. The result is the filled \<open>rms\<close>.
\<close>

fun rms_loop ::
  "pyobj \<Rightarrow> ndarray \<Rightarrow> int \<Rightarrow> int \<Rightarrow> int \<Rightarrow> int \<Rightarrow> int \<Rightarrow> nat \<Rightarrow> float64 list
     \<Rightarrow> exn + float64 list" where
  "rms_loop integrations bkg x1 x2 y1 y2 shape j [] = Inr []"
| "rms_loop integrations bkg x1 x2 y1 y2 shape j (v # vs) =
     (case frame_region integrations j x1 x2 y1 y2 of
        Inl e \<Rightarrow> Inl e
      | Inr fr \<Rightarrow>
          (case a_sub fr (a_scale (region bkg x1 x2 y1 y2) v) of
             Inl e \<Rightarrow> Inl e
           | Inr diff \<Rightarrow>
               (case rms_loop integrations bkg x1 x2 y1 y2 shape j vs of
                  Inl e \<Rightarrow> Inl e
                | Inr rest \<Rightarrow>
                    Inr (f_sqrt (f_div (nansum (flat (a_square diff))) (of_py_int shape))
                         # rest))))"

text \<open>
  Lines 55-61, one pass of the loop over the frames: the candidate of least rms,
  \<^verbatim>\<open>vals[np.argmin(rms)]\<close>.
\<close>

definition best_scale ::
  "pyobj \<Rightarrow> ndarray \<Rightarrow> int \<Rightarrow> int \<Rightarrow> int \<Rightarrow> int \<Rightarrow> int \<Rightarrow> float64 list \<Rightarrow> nat
     \<Rightarrow> exn + float64" where
  "best_scale integrations bkg x1 x2 y1 y2 shape vals j =
     (case rms_loop integrations bkg x1 x2 y1 y2 shape j vals of
        Inl e \<Rightarrow> Inl e
      | Inr rms \<Rightarrow>
          (case argmin rms of
             Inl e \<Rightarrow> Inl e
           | Inr k \<Rightarrow> Inr (vals ! k)))"

text \<open>
  Lines 54-61, the loop \<^verbatim>\<open>for j in tqdm(range(length))\<close> over the indices still to
  do, threading the array \<open>scaling_vals\<close>; the store \<^verbatim>\<open>scaling_vals[j] = ...\<close> raises
  IndexError past the end of the array. The progress bar of \<open>tqdm\<close> is not modelled.
\<close>

fun frame_loop ::
  "pyobj \<Rightarrow> ndarray \<Rightarrow> int \<Rightarrow> int \<Rightarrow> int \<Rightarrow> int \<Rightarrow> int \<Rightarrow> float64 list \<Rightarrow> nat list
     \<Rightarrow> float64 list \<Rightarrow> exn + float64 list" where
  "frame_loop integrations bkg x1 x2 y1 y2 shape vals [] scaling_vals = Inr scaling_vals"
| "frame_loop integrations bkg x1 x2 y1 y2 shape vals (j # js) scaling_vals =
     (case best_scale integrations bkg x1 x2 y1 y2 shape vals j of
        Inl e \<Rightarrow> Inl e
      | Inr b \<Rightarrow>
          if j < length scaling_vals
          then frame_loop integrations bkg x1 x2 y1 y2 shape vals js (scaling_vals[j := b])
          else Inl IndexError)"

text \<open>
  The function, lines 9-66. Its first parameter is spelled \<open>integraions\<close> (line 9)
  and is never read: the body reads the name \<open>integrations\<close> (lines 47, 52, 58),
  which is not a local variable and is looked up in the module namespace.
  The result is the lines printed (each a list of values) and the value returned.
  The defaults \<open>vals=np.linspace(0,10,500)\<close> and \<open>test=True\<close> are the caller's to pass.
\<close>

definition scaling_image_regions ::
  "namespace \<Rightarrow> pyobj \<Rightarrow> ndarray \<Rightarrow> int \<Rightarrow> int \<Rightarrow> int \<Rightarrow> int \<Rightarrow> float64 list \<Rightarrow> bool
     \<Rightarrow> exn + (float64 list list \<times> float64)" where
  "scaling_image_regions added integraions bkg x1 x2 y1 y2 vals test =
     (let shape = (x2 - x1) * (y2 - y1) in
      case resolve added ''integrations'' of
        Inl e \<Rightarrow> Inl e
      | Inr integrations \<Rightarrow>
          (case py_len integrations of
             Inl e \<Rightarrow> Inl e
           | Inr n \<Rightarrow>
               (let scaling_vals = replicate n (Num 0);
                    length = (if test then 5 else n)
                in case frame_loop integrations bkg x1 x2 y1 y2 shape vals
                          [0..<length] scaling_vals of
                     Inl e \<Rightarrow> Inl e
                   | Inr scaling_vals' \<Rightarrow>
                       Inr (if test then [take 5 scaling_vals'] else [],
                            nanmedian scaling_vals'))))"


section \<open>chromatic_writer\<close>

text \<open>
  An array of any number of dimensions: its shape and its items in row-major order
  (as many items as the product of the shape).
\<close>

record nparray =
  np_shape :: "nat list"
  np_data :: "float64 list"

text \<open>The \<open>.npy\<close> files, by path: each holds one array.\<close>

type_synonym npy_files = "string \<Rightarrow> nparray option"

text \<open>
  Modelled from numpy's documentation (numpy 1.24 and later), since numpy is not
  part of the repository. \<open>np.save(file, arr)\<close> takes an array-like and converts it
  with \<open>np.asanyarray\<close>. A list of arrays that all have one shape becomes a single
  array with one more leading dimension, the arrays laid out one after the other; a
  list of arrays of differing shapes is a ragged sequence, for which the conversion
  raises ValueError (inhomogeneous shape), and nothing is written.
\<close>

definition np_asanyarray :: "nparray list \<Rightarrow> exn + nparray" where
  "np_asanyarray xs =
     (case xs of
        [] \<Rightarrow> Inr \<lparr>np_shape = [0], np_data = []\<rparr>
      | a # rest \<Rightarrow>
          if list_all (\<lambda>b. np_shape b = np_shape a) rest
          then Inr \<lparr>np_shape = length xs # np_shape a, np_data = concat (map np_data xs)\<rparr>
          else Inl ValueError)"

text \<open>
  \<open>np.save\<close> to a path that already ends in \<open>.npy\<close> (the extension is added only to
  a path that lacks it): the file at the path is created or overwritten.
\<close>

definition np_save :: "npy_files \<Rightarrow> string \<Rightarrow> nparray list \<Rightarrow> exn + npy_files" where
  "np_save files path xs =
     (case np_asanyarray xs of
        Inl e \<Rightarrow> Inl e
      | Inr arr \<Rightarrow> Inr (files(path := Some arr)))"

text \<open>
  The function, lines 69-72: \<^verbatim>\<open>np.save(filename+'.npy', [time, wavelength, flux, var])\<close>.
  The result is the files after the call.
\<close>

definition chromatic_writer ::
  "npy_files \<Rightarrow> string \<Rightarrow> nparray \<Rightarrow> nparray \<Rightarrow> nparray \<Rightarrow> nparray \<Rightarrow> exn + npy_files" where
  "chromatic_writer files filename time wavelength flux var =
     np_save files (filename @ ''.npy'') [time, wavelength, flux, var]"

text \<open>
  Reloading is not in the repository. Modelled from numpy's documentation:
  \<open>np.load(path)\<close> returns the array that the file holds, and \<open>arr[i]\<close> is the i-th
  sub-array along the first dimension.
\<close>

definition np_load :: "npy_files \<Rightarrow> string \<Rightarrow> exn + nparray" where
  "np_load files path =
     (case files path of None \<Rightarrow> Inl (FileNotFoundError path) | Some arr \<Rightarrow> Inr arr)"

definition np_item :: "nparray \<Rightarrow> nat \<Rightarrow> exn + nparray" where
  "np_item arr i =
     (case np_shape arr of
        [] \<Rightarrow> Inl IndexError
      | n # rest \<Rightarrow>
          if i < n
          then Inr \<lparr>np_shape = rest,
                    np_data = take (prod_list rest) (drop (i * prod_list rest) (np_data arr))\<rparr>
          else Inl IndexError)"

text \<open>An array is well formed when it has as many items as its shape says.\<close>

definition np_ok :: "nparray \<Rightarrow> bool" where
  "np_ok a = (length (np_data a) = prod_list (np_shape a))"

section \<open>exotep_to_ers_format\<close>

text \<open>
  A table is its columns in order, each a name and the column's values; a value of a
  numeric column read from a CSV file is a float or an int. The files are a store
  from paths to the tables they hold: parsing and printing CSV text is astropy's and
  is not modelled.
\<close>

datatype cell = FloatCell float64 | IntCell int

type_synonym table = "(string \<times> cell list) list"

type_synonym filesystem = "string \<Rightarrow> table option"

fun as_float :: "cell \<Rightarrow> float64" where
  "as_float (FloatCell x) = x"
| "as_float (IntCell k) = of_py_int k"

text \<open>\<open>Table.read(filename, format='csv')\<close>.\<close>

definition Table_read :: "filesystem \<Rightarrow> string \<Rightarrow> exn + table" where
  "Table_read fs filename =
     (case fs filename of None \<Rightarrow> Inl (FileNotFoundError filename) | Some t \<Rightarrow> Inr t)"

text \<open>\<open>len(table)\<close>: the number of rows.\<close>

definition len_table :: "table \<Rightarrow> nat" where
  "len_table t = (case t of [] \<Rightarrow> 0 | (name, col) # rest \<Rightarrow> length col)"

text \<open>\<open>table[name]\<close>: the column, or astropy's KeyError for a name the table lacks.\<close>

definition column :: "table \<Rightarrow> string \<Rightarrow> exn + cell list" where
  "column t name = (case map_of t name of None \<Rightarrow> Inl (KeyError name) | Some col \<Rightarrow> Inr col)"

text \<open>\<open>table[name][i]\<close> for \<open>i\<close> from \<open>range\<close>.\<close>

definition cell_at :: "table \<Rightarrow> string \<Rightarrow> nat \<Rightarrow> exn + cell" where
  "cell_at t name i =
     (case column t name of
        Inl e \<Rightarrow> Inl e
      | Inr col \<Rightarrow> if i < length col then Inr (col ! i) else Inl IndexError)"

text \<open>
  Lines 95-96: the empty output table, four float64 columns and an int column.
\<close>

definition new_tab :: table where
  "new_tab = [(''wave'', []), (''wave_err'', []), (''dppm'', []), (''dppm_err'', []),
              (''order'', [])]"

text \<open>\<open>tab.add_row(row)\<close>: one value appended to each column, as the column's type.\<close>

definition add_row :: "table \<Rightarrow> cell \<Rightarrow> cell \<Rightarrow> cell \<Rightarrow> cell \<Rightarrow> int \<Rightarrow> table" where
  "add_row tab a b c d k =
     map (\<lambda>((name, col), v). (name, col @ [v]))
       (zip tab [FloatCell (as_float a), FloatCell (as_float b), FloatCell (as_float c),
                 FloatCell (as_float d), IntCell k])"

text \<open>
  The two loops, lines 98-101 and 104-107: for each row index of the source table,
  the row \<^verbatim>\<open>[src['wave'][i], src['waveMin'][i], src['yval'][i], src['yerrLow'][i], order]\<close>
  is built, the columns looked up left to right, and added.
\<close>

fun add_rows :: "table \<Rightarrow> int \<Rightarrow> nat list \<Rightarrow> table \<Rightarrow> exn + table" where
  "add_rows src order [] tab = Inr tab"
| "add_rows src order (i # is) tab =
     (case cell_at src ''wave'' i of
        Inl e \<Rightarrow> Inl e
      | Inr a \<Rightarrow>
     (case cell_at src ''waveMin'' i of
        Inl e \<Rightarrow> Inl e
      | Inr b \<Rightarrow>
     (case cell_at src ''yval'' i of
        Inl e \<Rightarrow> Inl e
      | Inr c \<Rightarrow>
     (case cell_at src ''yerrLow'' i of
        Inl e \<Rightarrow> Inl e
      | Inr d \<Rightarrow> add_rows src order is (add_row tab a b c d order)))))"

text \<open>\<open>table[mask]\<close>: the rows at which the boolean mask is true.\<close>

definition select_rows :: "table \<Rightarrow> bool list \<Rightarrow> table" where
  "select_rows t keep = map (\<lambda>(name, col). (name, map fst (filter snd (zip col keep)))) t"

text \<open>
  The function, lines 75-110. The result is the store after \<open>tab.write\<close> (which
  overwrites) and the table returned.
\<close>

definition exotep_to_ers_format ::
  "filesystem \<Rightarrow> string \<Rightarrow> string \<Rightarrow> string \<Rightarrow> exn + (filesystem \<times> table)" where
  "exotep_to_ers_format fs filename1 filename2 filename =
     (case Table_read fs filename1 of
        Inl e \<Rightarrow> Inl e
      | Inr table1 \<Rightarrow>
     (case Table_read fs filename2 of
        Inl e \<Rightarrow> Inl e
      | Inr table2 \<Rightarrow>
     (case add_rows table1 1 [0..<len_table table1] new_tab of
        Inl e \<Rightarrow> Inl e
      | Inr tab1 \<Rightarrow>
     (case column table2 ''wave'' of
        Inl e \<Rightarrow> Inl e
      | Inr wave2 \<Rightarrow>
          (let short = select_rows table2
                         (map (\<lambda>w. f_less (as_float w) (Num (9 / 10))) wave2)
           in case add_rows short 2 [0..<len_table short] tab1 of
                Inl e \<Rightarrow> Inl e
              | Inr tab \<Rightarrow> Inr (fs(filename := Some tab), tab))))))"

text \<open>
  What the claims say of the input tables: the four columns that the function reads,
  a table that has them all, the first of them that a table lacks, and the
  well-formedness of a table (every column has as many values as the table has
  rows, which astropy guarantees of any table it reads).
\<close>

definition expected_columns :: "string list" where
  "expected_columns = [''wave'', ''waveMin'', ''yval'', ''yerrLow'']"

definition has_columns :: "table \<Rightarrow> bool" where
  "has_columns t = list_all (\<lambda>name. map_of t name \<noteq> None) expected_columns"

definition missing_column :: "table \<Rightarrow> string option" where
  "missing_column t = find (\<lambda>name. map_of t name = None) expected_columns"

definition table_ok :: "table \<Rightarrow> bool" where
  "table_ok t = list_all (\<lambda>(name, col). length col = len_table t) t"

text \<open>The rows of a wave column that the filter of line 103 keeps.\<close>

definition below_threshold :: "cell \<Rightarrow> bool" where
  "below_threshold w = f_less (as_float w) (Num (9 / 10))"

text \<open>An output table with the given five columns.\<close>

definition ers_table ::
  "cell list \<Rightarrow> cell list \<Rightarrow> cell list \<Rightarrow> cell list \<Rightarrow> cell list \<Rightarrow> table" where
  "ers_table ws es ds des os =
     [(''wave'', ws), (''wave_err'', es), (''dppm'', ds), (''dppm_err'', des), (''order'', os)]"

text \<open>The number of rows of a table that the filter of line 103 keeps.\<close>

definition rows_below :: "table \<Rightarrow> nat" where
  "rows_below t =
     (case map_of t ''wave'' of None \<Rightarrow> 0 | Some ws \<Rightarrow> length (filter below_threshold ws))"

text \<open>
  Small tables: a complete one of two rows; a complete one of three rows, two of them
  below the threshold; one of one row that lacks \<open>waveMin\<close>; one of one row, below
  the threshold, that lacks \<open>yval\<close>; and one with a header and no rows that lacks
  every expected column.
\<close>

definition table_a :: table where
  "table_a = [(''wave'', [FloatCell (Num 1), FloatCell (Num (6 / 5))]),
              (''waveMin'', [FloatCell (Num (1 / 100)), FloatCell (Num (1 / 100))]),
              (''yval'', [FloatCell (Num 100), FloatCell (Num 120)]),
              (''yerrLow'', [FloatCell (Num 5), FloatCell (Num 6)])]"

definition table_b :: table where
  "table_b = [(''wave'', [FloatCell (Num (7 / 10)), FloatCell (Num (19 / 20)),
                          FloatCell (Num (4 / 5))]),
              (''waveMin'', [FloatCell (Num (1 / 100)), FloatCell (Num (1 / 100)),
                             FloatCell (Num (1 / 100))]),
              (''yval'', [FloatCell (Num 90), FloatCell (Num 95), FloatCell (Num 99)]),
              (''yerrLow'', [FloatCell (Num 4), FloatCell (Num 4), FloatCell (Num 4)])]"

definition table_no_waveMin :: table where
  "table_no_waveMin = [(''wave'', [FloatCell (Num 1)]),
                       (''yval'', [FloatCell (Num 100)]),
                       (''yerrLow'', [FloatCell (Num 5)])]"

definition table_no_yval :: table where
  "table_no_yval = [(''wave'', [FloatCell (Num (1 / 2))]),
                    (''waveMin'', [FloatCell (Num (1 / 100))]),
                    (''yerrLow'', [FloatCell (Num 5)])]"

definition table_header_only :: table where
  "table_header_only = [(''lambda'', [])]"

definition table_c :: table where
  "table_c = [(''wave'', [FloatCell (Num (1 / 2))]),
              (''waveMin'', [FloatCell (Num (1 / 100))]),
              (''yval'', [FloatCell (Num 90)]),
              (''yerrLow'', [FloatCell (Num 5)])]"

text \<open>A store holding two tables under the paths \<open>o1.csv\<close> and \<open>o2.csv\<close>.\<close>

definition two_files :: "table \<Rightarrow> table \<Rightarrow> filesystem" where
  "two_files t1 t2 = (\<lambda>path. if path = ''o1.csv'' then Some t1
                             else if path = ''o2.csv'' then Some t2 else None)"

section \<open>The wrappers of the external library\<close>

text \<open>
  \<open>transitspectroscopy\<close> is not part of the repository: its two functions are
  parameters of the wrappers, each returning a value or raising.

  \<open>bin_at_resolution\<close>, lines 112-138. The parameter is \<open>wavelengths\<close>; the call on
  line 137 passes the name \<open>wavelength\<close>, which is not a local variable and is looked
  up in the module namespace before the library function is called. The library's
  result is indexed at 0, 1 and 2.
\<close>

definition bin_at_resolution ::
  "namespace \<Rightarrow> (pyobj \<Rightarrow> 'd \<Rightarrow> int \<Rightarrow> string \<Rightarrow> exn + 'o list) \<Rightarrow> 'w \<Rightarrow> 'd \<Rightarrow> int \<Rightarrow> string
     \<Rightarrow> exn + ('o \<times> 'o \<times> 'o)" where
  "bin_at_resolution added ts_bin_at_resolution wavelengths depths R method =
     (case resolve added ''wavelength'' of
        Inl e \<Rightarrow> Inl e
      | Inr wavelength \<Rightarrow>
          (case ts_bin_at_resolution wavelength depths R method of
             Inl e \<Rightarrow> Inl e
           | Inr outputs \<Rightarrow>
               if 2 < length outputs
               then Inr (outputs ! 0, outputs ! 1, outputs ! 2)
               else Inl IndexError))"

text \<open>
  \<open>get_MAD_sigma\<close>, lines 140-150: the library's value is bound to the local \<open>mad\<close>
  and the function ends without a \<open>return\<close>, so the caller gets Python's \<open>None\<close>,
  modelled as \<open>None\<close> of an option type.
\<close>

definition get_MAD_sigma ::
  "('x \<Rightarrow> 'm \<Rightarrow> exn + 'r) \<Rightarrow> 'x \<Rightarrow> 'm \<Rightarrow> exn + 'r option" where
  "get_MAD_sigma ts_get_mad_sigma x median =
     (case ts_get_mad_sigma x median of
        Inl e \<Rightarrow> Inl e
      | Inr mad \<Rightarrow> Inr None)"

section \<open>float64 arithmetic rounded to binary64\<close>

text \<open>
  The operations \<open>f_add\<close>, \<open>f_mul\<close>, \<open>f_div\<close> and \<open>f_sqrt\<close> above are exact on finite
  values; they serve where what is proved does not turn on rounding. The values
  that \<open>stacked_transits\<close> draws are results of float64 arithmetic, so its model
  uses the operations of this section, which round every finite result to binary64
  (IEEE 754 double precision, round to nearest, ties to even): 53 significant
  bits, exponents of the last place from -1074 to 971, overflow to an infinity.
  Comparisons and negation are exact and are the ones above.
\<close>














section \<open>stacked_transits\<close>

text \<open>
  \<open>niriss/plotting.py\<close>, lines 60-99. The arrays are \<open>time\<close> and \<open>wavelength\<close>
  (one-dimensional) and \<open>flux\<close> and \<open>variance\<close> (time by channel). The palette
  \<open>colors\<close> is a module-level array loaded from a file when the module is imported
  (line 25); the file is not part of the repository and the palette is a parameter,
  its entries taken to be colours that matplotlib accepts. The function's effect on
  the axes is the list of its \<open>ax.errorbar\<close> calls and of its \<open>ax.text\<close> calls with
  their data arguments (the styling arguments \<open>figsize\<close> and \<open>linestyle\<close> are left
  out), next to the values printed and the value of the variable \<open>offset\<close> at each
  pass of the loop.
\<close>


















section \<open>Concrete inputs\<close>

text \<open>An array of the given shape whose every cell is the same finite value.\<close>

definition const_frame :: "nat \<Rightarrow> nat \<Rightarrow> real \<Rightarrow> ndarray" where
  "const_frame r c v = \<lparr>nrows = r, ncols = c, cells = (\<lambda>i j. Num v)\<rparr>"

text \<open>
  The scenario of the specification: ten frames of shape 5 by 5 whose every pixel is
  3.0, a background of ones, and the candidate grid 0, 1, 2, 3, 4, 5.
\<close>

definition scenario_frames :: "ndarray list" where
  "scenario_frames = replicate 10 (const_frame 5 5 3)"

definition scenario_bkg :: ndarray where
  "scenario_bkg = const_frame 5 5 1"

definition scenario_vals :: "float64 list" where
  "scenario_vals = [Num 0, Num 1, Num 2, Num 3, Num 4, Num 5]"








text \<open>
  Inputs for \<open>chromatic_writer\<close>: two time stamps, three wavelengths, and a flux and
  a variance of shape 2 by 3; and four arrays of the one shape 2.
\<close>

definition lc_time :: nparray where
  "lc_time = \<lparr>np_shape = [2], np_data = [Num 0, Num 1]\<rparr>"

definition lc_wavelength :: nparray where
  "lc_wavelength = \<lparr>np_shape = [3], np_data = [Num 1, Num 2, Num 3]\<rparr>"

definition lc_flux :: nparray where
  "lc_flux = \<lparr>np_shape = [2, 3],
              np_data = [Num 10, Num 11, Num 12, Num 13, Num 14, Num 15]\<rparr>"

definition lc_var :: nparray where
  "lc_var = \<lparr>np_shape = [2, 3], np_data = [Num 1, Num 1, Num 1, Num 1, Num 1, Num 1]\<rparr>"

definition no_files :: npy_files where
  "no_files = (\<lambda>path. None)"

section \<open>Name resolution in the module as written\<close>

lemma resolve_integrations_unbound:
  "resolve [] ''integrations'' = Inl (NameError ''integrations'')"
  by (simp add: resolve_def utils_globals_def builtin_names_def)

lemma resolve_integrations_added:
  "resolve [(''integrations'', v)] ''integrations'' = Inr v"
  by (simp add: resolve_def utils_globals_def builtin_names_def)

text \<open>
  Claim C10. In the module as written, every call of \<open>scaling_image_regions\<close> raises
  the undefined-name error for \<open>integrations\<close>, whatever the arguments: the parameter
  is spelled \<open>integraions\<close>, and neither the module text nor the built-ins bind
  \<open>integrations\<close>. No call returns a scaling value.
\<close>

theorem scaling_image_regions_always_NameError:
  "scaling_image_regions [] integraions bkg x1 x2 y1 y2 vals test
     = Inl (NameError ''integrations'')"
  by (simp add: scaling_image_regions_def resolve_integrations_unbound)

section \<open>The loop over the frames\<close>

lemma frame_loop_append:
  "frame_loop I bkg x1 x2 y1 y2 sh vals (js @ ks) sv =
     (case frame_loop I bkg x1 x2 y1 y2 sh vals js sv of
        Inl e \<Rightarrow> Inl e
      | Inr sv' \<Rightarrow> frame_loop I bkg x1 x2 y1 y2 sh vals ks sv')"
  by (induction js arbitrary: sv) (auto split: sum.splits)

lemma frame_loop_upt:
  assumes ok: "\<And>j. j < m \<Longrightarrow> best_scale I bkg x1 x2 y1 y2 sh vals j = Inr (b j)"
    and len: "m \<le> length sv"
  shows "frame_loop I bkg x1 x2 y1 y2 sh vals [0..<m] sv = Inr (map b [0..<m] @ drop m sv)"
  using assms
proof (induction m)
  case 0
  then show ?case by simp
next
  case (Suc m)
  have prev: "frame_loop I bkg x1 x2 y1 y2 sh vals [0..<m] sv = Inr (map b [0..<m] @ drop m sv)"
    using Suc by simp
  have bm: "best_scale I bkg x1 x2 y1 y2 sh vals m = Inr (b m)"
    using Suc.prems(1) by simp
  have lt: "m < length sv" using Suc.prems(2) by simp
  have upd: "(map b [0..<m] @ drop m sv)[m := b m] = map b [0..<m] @ b m # drop (Suc m) sv"
    using lt by (simp add: list_update_append Cons_nth_drop_Suc[symmetric])
  show ?case
    using lt by (simp add: frame_loop_append prev bm upd)
qed

lemma bcast_dim_same: "bcast_dim d d = Some d"
  by (simp add: bcast_dim_def)


lemma rms_loop_length:
  "rms_loop I bkg x1 x2 y1 y2 sh j vals = Inr rms \<Longrightarrow> length rms = length vals"
  by (induction vals arbitrary: rms) (auto split: sum.splits)

lemma region_shape:
  "nrows f = nrows bkg \<Longrightarrow> ncols f = ncols bkg \<Longrightarrow>
   nrows (region f x1 x2 y1 y2) = nrows (region bkg x1 x2 y1 y2) \<and>
   ncols (region f x1 x2 y1 y2) = ncols (region bkg x1 x2 y1 y2)"
  by (simp add: region_def Let_def)

lemma a_sub_same_shape:
  assumes "nrows a = nrows b" "ncols a = ncols b"
  shows "\<exists>d. a_sub a b = Inr d \<and> nrows d = nrows a \<and> ncols d = ncols a"
  using assms by (simp add: a_sub_def bcast_dim_same)

lemma rms_loop_Frames:
  assumes "j < length fs" "nrows (fs ! j) = nrows bkg" "ncols (fs ! j) = ncols bkg"
  shows "\<exists>rms. rms_loop (Frames fs) bkg x1 x2 y1 y2 sh j vals = Inr rms"
proof (induction vals)
  case Nil
  then show ?case by simp
next
  case (Cons v vs)
  obtain d where "a_sub (region (fs ! j) x1 x2 y1 y2) (a_scale (region bkg x1 x2 y1 y2) v) = Inr d"
    using a_sub_same_shape[of "region (fs ! j) x1 x2 y1 y2" "a_scale (region bkg x1 x2 y1 y2) v"]
      region_shape[OF assms(2,3), of x1 x2 y1 y2]
    by (auto simp: a_scale_def)
  with Cons assms(1) show ?case by auto
qed

lemma argmin_scan_bound: "bi < i \<Longrightarrow> argmin_scan xs i bi bv < i + length xs"
proof (induction xs arbitrary: i bi bv)
  case Nil
  then show ?case by simp
next
  case (Cons x xs)
  have a: "argmin_scan xs (Suc i) i x < Suc i + length xs"
    using Cons.IH[of i "Suc i" x] by simp
  have b: "argmin_scan xs (Suc i) bi bv < Suc i + length xs"
    using Cons.IH[of bi "Suc i" bv] Cons.prems by simp
  show ?case using a b Cons.prems by simp
qed

lemma argmin_Inr: "xs \<noteq> [] \<Longrightarrow> \<exists>k<length xs. argmin xs = Inr k"
proof (cases xs)
  case Nil
  assume "xs \<noteq> []" with Nil show ?thesis by simp
next
  case (Cons x rest)
  have "argmin_scan rest 1 0 x < 1 + length rest"
    by (rule argmin_scan_bound) simp
  with Cons show ?thesis by (simp add: argmin_def)
qed

lemma best_scale_Frames:
  assumes "j < length fs" "nrows (fs ! j) = nrows bkg" "ncols (fs ! j) = ncols bkg" "vals \<noteq> []"
  shows "\<exists>b. best_scale (Frames fs) bkg x1 x2 y1 y2 sh vals j = Inr b"
proof -
  obtain rms where r: "rms_loop (Frames fs) bkg x1 x2 y1 y2 sh j vals = Inr rms"
    using rms_loop_Frames[OF assms(1-3)] by blast
  then have "rms \<noteq> []" using rms_loop_length[OF r] assms(4) by auto
  then obtain k where "argmin rms = Inr k" using argmin_Inr by blast
  with r show ?thesis by (simp add: best_scale_def)
qed

text \<open>
  Test mode on more than five frames, once the name the body reads is bound to the
  frame stack (a non-empty candidate grid, the first five frames of the background's
  shape): the best-fit scale is computed for the first five frames only, those five
  values \<open>bs\<close> are printed, and the value returned is the NaN-ignoring median of the
  whole array \<open>scaling_vals\<close>, the five values followed by the 0.0 that \<open>np.zeros\<close> left
  in the entry of each remaining frame.
\<close>

lemma test_mode_median_of_whole_array:
  assumes res: "resolve added ''integrations'' = Inr (Frames fs)"
    and len: "5 < length fs"
    and shp: "list_all (\<lambda>f. nrows f = nrows bkg \<and> ncols f = ncols bkg) (take 5 fs)"
    and vals: "vals \<noteq> []"
  shows "\<exists>bs. length bs = 5 \<and>
           (\<forall>j<5. best_scale (Frames fs) bkg x1 x2 y1 y2 ((x2 - x1) * (y2 - y1)) vals j
                     = Inr (bs ! j)) \<and>
           scaling_image_regions added integraions bkg x1 x2 y1 y2 vals True
             = Inr ([bs], nanmedian (bs @ replicate (length fs - 5) (Num 0)))"
proof -
  let ?sh = "(x2 - x1) * (y2 - y1)"
  have ex: "\<exists>b. best_scale (Frames fs) bkg x1 x2 y1 y2 ?sh vals j = Inr b" if "j < 5" for j
  proof -
    have "j < length fs" using that len by simp
    moreover have "nrows (fs ! j) = nrows bkg \<and> ncols (fs ! j) = ncols bkg"
      using shp that len by (simp add: list_all_length)
    ultimately show ?thesis using best_scale_Frames vals by blast
  qed
  then obtain b where b: "\<And>j. j < 5 \<Longrightarrow> best_scale (Frames fs) bkg x1 x2 y1 y2 ?sh vals j = Inr (b j)"
    by metis
  have loop: "frame_loop (Frames fs) bkg x1 x2 y1 y2 ?sh vals [0..<5] (replicate (length fs) (Num 0))
        = Inr (map b [0..<5] @ drop 5 (replicate (length fs) (Num 0)))"
    using len by (intro frame_loop_upt b) simp_all
  let ?bs = "map b [0..<5]"
  have "length ?bs = 5" by simp
  moreover have "\<forall>j<5. best_scale (Frames fs) bkg x1 x2 y1 y2 ?sh vals j = Inr (?bs ! j)"
    using b by simp
  moreover have "scaling_image_regions added integraions bkg x1 x2 y1 y2 vals True
             = Inr ([?bs], nanmedian (?bs @ replicate (length fs - 5) (Num 0)))"
    unfolding scaling_image_regions_def Let_def res
    using loop by simp
  ultimately show ?thesis by blast
qed


section \<open>A region with no pixels\<close>



lemma f_less_irrefl: "\<not> f_less c c"
  by (cases c) simp_all














section \<open>The scenario of the specification, evaluated\<close>

lemma sqrt_9: "sqrt 9 = 3" using real_sqrt_abs[of 3] by simp

lemma flat_const_frame: "flat \<lparr>nrows = r, ncols = c, cells = (\<lambda>i j. x)\<rparr> = replicate (r * c) x"
  unfolding flat_def
  by (induction r) (simp_all add: map_replicate_const replicate_add)

lemma nansum_replicate_Num: "nansum (replicate n (Num x)) = Num (real n * x)"
proof -
  have "foldl f_add (Num a) (replicate n (Num x)) = Num (a + real n * x)" for a
    by (induction n arbitrary: a) (simp_all add: algebra_simps)
  then show ?thesis by (simp add: nansum_def)
qed

lemma rms_const_frames:
  assumes "j < length fs" "fs ! j = const_frame 5 5 a"
  shows "rms_loop (Frames fs) (const_frame 5 5 b) 0 5 0 5 25 j vals
     = Inr (map (\<lambda>v. f_sqrt (f_div (nansum (replicate 25 (f_mul (f_sub (Num a) (f_mul (Num b) v)) (f_sub (Num a) (f_mul (Num b) v))))) (Num 25))) vals)"
  using assms
  by (induction vals) (simp_all add: const_frame_def region_def slice_bound_def a_sub_def a_scale_def a_square_def bcast_dim_def
       flat_const_frame of_py_int_def)

lemma best_scale_scenario:
  assumes "j < 10"
  shows "best_scale (Frames scenario_frames) scenario_bkg 0 5 0 5 25 scenario_vals j = Inr (Num 3)"
proof -
  have "rms_loop (Frames scenario_frames) scenario_bkg 0 5 0 5 25 j scenario_vals
     = Inr [Num 3, Num 2, Num 1, Num 0, Num 1, Num 2]"
    unfolding scenario_bkg_def
    by (subst rms_const_frames[where a=3])
       (use assms in \<open>simp_all add: scenario_frames_def scenario_vals_def f_sub_def nansum_replicate_Num sqrt_9\<close>)
  then show ?thesis
    by (simp add: best_scale_def argmin_def scenario_vals_def)
qed

lemma replicate_5: "replicate 5 x = [x, x, x, x, x]"
  by (simp add: numeral_eq_Suc)

lemma replicate_10: "replicate 10 x = [x, x, x, x, x, x, x, x, x, x]"
  by (simp add: numeral_eq_Suc)

lemma f_insert_replicate: "f_insert c (replicate n c) = replicate (Suc n) c"
  by (cases n) (simp_all add: f_less_irrefl)

lemma f_sort_replicate: "f_sort (replicate n c) = replicate n c"
  unfolding f_sort_def
  by (induction n) (simp_all add: f_insert_replicate del: replicate_Suc)

lemma f_mean_same: "c \<noteq> NaN \<Longrightarrow> f_div (f_add c c) (Num 2) = c"
  by (cases c) simp_all

lemma nanmedian_replicate: "0 < n \<Longrightarrow> c \<noteq> NaN \<Longrightarrow> nanmedian (replicate n c) = c"
  by (simp add: nanmedian_def f_sort_replicate Let_def f_mean_same)

lemma nanmedian_threes_zeros: "nanmedian (replicate 5 (Num 3) @ replicate 5 (Num 0)) = Num (3 / 2)"
  by (simp add: nanmedian_def f_sort_def replicate_5)

lemma scenario_name_bound:
  "scaling_image_regions [(''integrations'', Frames scenario_frames)] integraions scenario_bkg 0 5 0 5 scenario_vals False
     = Inr ([], Num 3)"
proof -
  have "frame_loop (Frames scenario_frames) scenario_bkg 0 5 0 5 25 scenario_vals [0..<10] (replicate 10 (Num 0))
          = Inr (map (\<lambda>j. Num 3) [0..<10] @ drop 10 (replicate 10 (Num 0)))"
    by (rule frame_loop_upt) (simp_all add: best_scale_scenario)
  then show ?thesis
    by (simp add: scaling_image_regions_def resolve_integrations_added scenario_frames_def[THEN arg_cong, of length]
        map_replicate_const nanmedian_replicate)
qed

lemma scenario_test_mode:
  "scaling_image_regions [(''integrations'', Frames scenario_frames)] integraions scenario_bkg 0 5 0 5 scenario_vals True
     = Inr ([replicate 5 (Num 3)], Num (3 / 2))"
proof -
  have "frame_loop (Frames scenario_frames) scenario_bkg 0 5 0 5 25 scenario_vals [0..<5] (replicate 10 (Num 0))
          = Inr (map (\<lambda>j. Num 3) [0..<5] @ drop 5 (replicate 10 (Num 0)))"
    by (rule frame_loop_upt) (simp_all add: best_scale_scenario)
  then show ?thesis
    by (simp add: scaling_image_regions_def resolve_integrations_added scenario_frames_def[THEN arg_cong, of length]
        map_replicate_const nanmedian_threes_zeros)
qed

section \<open>The claims about scaling_image_regions\<close>

text \<open>
  Claim C1 (the code departs from it). On the scenario of the specification the call
  does not return 3.0: in the module as written it raises the undefined-name error
  at line 47. (With the name \<open>integrations\<close> bound to the frame stack the body does
  compute 3.0: lemma \<open>scenario_name_bound\<close>.)
\<close>

theorem scaling_image_regions_scenario_raises:
  "scaling_image_regions [] (Frames scenario_frames) scenario_bkg 0 5 0 5 scenario_vals False
     = Inl (NameError ''integrations'')"
  by (simp add: scaling_image_regions_def resolve_integrations_unbound)

text \<open>
  Claim C2 (the code departs from it). In test mode on the scenario's ten frames the
  call does not return the median of the first five best-fit scales: the module as
  written raises NameError; and with the name bound, the five values printed are all
  3.0, whose median is 3.0, while the value returned is 1.5, the median of the five
  values and the five zeros left in \<open>scaling_vals\<close> for the frames not processed.
\<close>

theorem scaling_image_regions_test_mode_scenario:
  "scaling_image_regions [] (Frames scenario_frames) scenario_bkg 0 5 0 5 scenario_vals True
     = Inl (NameError ''integrations'') \<and>
   scaling_image_regions [(''integrations'', Frames scenario_frames)] (Frames scenario_frames)
       scenario_bkg 0 5 0 5 scenario_vals True
     = Inr ([replicate 5 (Num 3)], Num (3 / 2)) \<and>
   nanmedian (replicate 5 (Num 3)) = Num 3"
proof -
  have "scaling_image_regions [] (Frames scenario_frames) scenario_bkg 0 5 0 5 scenario_vals True
          = Inl (NameError ''integrations'')"
    by (simp add: scaling_image_regions_def resolve_integrations_unbound)
  then show ?thesis
    by (simp add: scenario_test_mode nanmedian_replicate)
qed

lemma test_mode_median_of_whole_array_scenario:
  "resolve [(''integrations'', Frames scenario_frames)] ''integrations''
     = Inr (Frames scenario_frames) \<and>
   5 < length scenario_frames \<and>
   list_all (\<lambda>f. nrows f = nrows scenario_bkg \<and> ncols f = ncols scenario_bkg)
     (take 5 scenario_frames) \<and>
   scenario_vals \<noteq> [] \<and>
   (\<exists>bs. length bs = 5 \<and>
      (\<forall>j<5. best_scale (Frames scenario_frames) scenario_bkg 0 5 0 5 ((5 - 0) * (5 - 0))
                 scenario_vals j = Inr (bs ! j)) \<and>
      scaling_image_regions [(''integrations'', Frames scenario_frames)]
          (Frames scenario_frames) scenario_bkg 0 5 0 5 scenario_vals True
        = Inr ([bs], nanmedian (bs @ replicate (length scenario_frames - 5) (Num 0))))"
proof -
  have h1: "resolve [(''integrations'', Frames scenario_frames)] ''integrations''
              = Inr (Frames scenario_frames)"
    by (rule resolve_integrations_added)
  have h2: "5 < length scenario_frames"
    by (simp add: scenario_frames_def)
  have h3: "list_all (\<lambda>f. nrows f = nrows scenario_bkg \<and> ncols f = ncols scenario_bkg)
              (take 5 scenario_frames)"
    by (simp add: scenario_frames_def scenario_bkg_def const_frame_def list_all_length)
  have h4: "scenario_vals \<noteq> []"
    by (simp add: scenario_vals_def)
  from test_mode_median_of_whole_array[OF h1 h2 h3 h4, of 0 5 0 5 "Frames scenario_frames"]
  show ?thesis using h1 h2 h3 h4 by blast
qed




section \<open>chromatic_writer: what is written\<close>

lemma np_asanyarray_same_shape:
  assumes "np_shape w = np_shape t" "np_shape f = np_shape t" "np_shape v = np_shape t"
  shows "np_asanyarray [t, w, f, v]
           = Inr \<lparr>np_shape = 4 # np_shape t,
                  np_data = np_data t @ np_data w @ np_data f @ np_data v\<rparr>"
  using assms by (simp add: np_asanyarray_def)

lemma np_asanyarray_ragged:
  assumes "np_shape w \<noteq> np_shape t \<or> np_shape f \<noteq> np_shape t \<or> np_shape v \<noteq> np_shape t"
  shows "np_asanyarray [t, w, f, v] = Inl ValueError"
  using assms by (auto simp: np_asanyarray_def)

lemma chromatic_writer_ragged:
  assumes "np_shape wavelength \<noteq> np_shape time \<or> np_shape flux \<noteq> np_shape time \<or>
           np_shape var \<noteq> np_shape time"
  shows "chromatic_writer files filename time wavelength flux var = Inl ValueError"
  using np_asanyarray_ragged[OF assms]
  by (simp add: chromatic_writer_def np_save_def)

text \<open>
  Four arrays of one shape do make the round trip: the file holds one array of four
  slices, and the slices reloaded are the arrays written.
\<close>

lemma chromatic_writer_same_shape_round_trip:
  assumes shp: "np_shape wavelength = np_shape time" "np_shape flux = np_shape time"
      "np_shape var = np_shape time"
    and ok: "np_ok time" "np_ok wavelength" "np_ok flux" "np_ok var"
  shows "\<exists>files' arr.
           chromatic_writer files filename time wavelength flux var = Inr files' \<and>
           np_load files' (filename @ ''.npy'') = Inr arr \<and>
           np_item arr 0 = Inr time \<and> np_item arr 1 = Inr wavelength \<and>
           np_item arr 2 = Inr flux \<and> np_item arr 3 = Inr var"
proof -
  let ?arr = "\<lparr>np_shape = 4 # np_shape time,
                np_data = np_data time @ np_data wavelength @ np_data flux @ np_data var\<rparr>"
  let ?n = "prod_list (np_shape time)"
  have len: "length (np_data time) = ?n" "length (np_data wavelength) = ?n"
    "length (np_data flux) = ?n" "length (np_data var) = ?n"
    using ok shp by (simp_all add: np_ok_def)
  have w: "chromatic_writer files filename time wavelength flux var
             = Inr (files(filename @ ''.npy'' := Some ?arr))"
    by (simp add: chromatic_writer_def np_save_def np_asanyarray_same_shape[OF shp])
  have l: "np_load (files(filename @ ''.npy'' := Some ?arr)) (filename @ ''.npy'') = Inr ?arr"
    by (simp add: np_load_def)
  have i0: "np_item ?arr 0 = Inr time"
    using len by (simp add: np_item_def)
  have i1: "np_item ?arr 1 = Inr wavelength"
    using len shp by (simp add: np_item_def)
  have i2: "np_item ?arr 2 = Inr flux"
    using len shp by (simp add: np_item_def)
  have i3: "np_item ?arr 3 = Inr var"
    using len shp by (simp add: np_item_def)
  from w l i0 i1 i2 i3 show ?thesis by blast
qed

text \<open>
  Claim C6 (the code departs from it). A light curve has a time axis, a wavelength
  axis and a flux and a variance over both, so the four arrays differ in shape;
  for such a quadruple the call raises ValueError and writes no file, so there is
  nothing to reload. Here: two time stamps, three wavelengths, flux and variance of
  shape 2 by 3.
\<close>

theorem chromatic_writer_light_curve_raises:
  "chromatic_writer no_files ''lc'' lc_time lc_wavelength lc_flux lc_var = Inl ValueError"
  by (simp add: chromatic_writer_def np_save_def np_asanyarray_def lc_time_def
        lc_wavelength_def lc_flux_def lc_var_def)

section \<open>The rows and the order column of exotep_to_ers_format\<close>

lemma add_row_ers:
  "add_row (ers_table ws es ds des os) a b c d k =
     ers_table (ws @ [FloatCell (as_float a)]) (es @ [FloatCell (as_float b)])
       (ds @ [FloatCell (as_float c)]) (des @ [FloatCell (as_float d)]) (os @ [IntCell k])"
  by (simp add: add_row_def ers_table_def)

lemma cell_at_Some:
  "map_of t name = Some col \<Longrightarrow> i < length col \<Longrightarrow> cell_at t name i = Inr (col ! i)"
  by (simp add: cell_at_def column_def)

lemma cell_at_None: "map_of t name = None \<Longrightarrow> cell_at t name i = Inl (KeyError name)"
  by (simp add: cell_at_def column_def)

lemma add_rows_ok:
  assumes "map_of src ''wave'' = Some w" "map_of src ''waveMin'' = Some wm"
    "map_of src ''yval'' = Some yv" "map_of src ''yerrLow'' = Some ye"
    and "list_all (\<lambda>i. i < length w \<and> i < length wm \<and> i < length yv \<and> i < length ye) is"
  shows "add_rows src k is (ers_table ws es ds des os) =
           Inr (ers_table (ws @ map (\<lambda>i. FloatCell (as_float (w ! i))) is)
                          (es @ map (\<lambda>i. FloatCell (as_float (wm ! i))) is)
                          (ds @ map (\<lambda>i. FloatCell (as_float (yv ! i))) is)
                          (des @ map (\<lambda>i. FloatCell (as_float (ye ! i))) is)
                          (os @ replicate (length is) (IntCell k)))"
  using assms(5)
proof (induction "is" arbitrary: ws es ds des os)
  case Nil
  then show ?case by simp
next
  case (Cons i "is")
  then show ?case
    by (simp add: cell_at_Some[OF assms(1)] cell_at_Some[OF assms(2)]
        cell_at_Some[OF assms(3)] cell_at_Some[OF assms(4)] add_row_ers
        replicate_app_Cons_same)
qed

lemma table_ok_column:
  "table_ok t \<Longrightarrow> map_of t name = Some col \<Longrightarrow> length col = len_table t"
  by (auto simp: table_ok_def list_all_iff dest!: map_of_SomeD)

lemma has_columnsD:
  assumes "has_columns t"
  obtains w wm yv ye where "map_of t ''wave'' = Some w" "map_of t ''waveMin'' = Some wm"
    "map_of t ''yval'' = Some yv" "map_of t ''yerrLow'' = Some ye"
  using assms by (auto simp: has_columns_def expected_columns_def)

lemma add_rows_table:
  assumes hc: "has_columns t" and ok: "table_ok t"
  shows "\<exists>ws' es' ds' des'.
           add_rows t k [0..<len_table t] (ers_table ws es ds des os) =
             Inr (ers_table (ws @ ws') (es @ es') (ds @ ds') (des @ des')
                   (os @ replicate (len_table t) (IntCell k))) \<and>
           length ws' = len_table t"
proof -
  from hc obtain w wm yv ye where c: "map_of t ''wave'' = Some w" "map_of t ''waveMin'' = Some wm"
    "map_of t ''yval'' = Some yv" "map_of t ''yerrLow'' = Some ye"
    by (rule has_columnsD)
  have len: "length w = len_table t" "length wm = len_table t" "length yv = len_table t"
    "length ye = len_table t"
    using c ok by (simp_all add: table_ok_column)
  have "list_all (\<lambda>i. i < length w \<and> i < length wm \<and> i < length yv \<and> i < length ye) [0..<len_table t]"
    using len by (simp add: list_all_iff)
  from add_rows_ok[OF c this, of k ws es ds des os]
  have r: "add_rows t k [0..<len_table t] (ers_table ws es ds des os) =
           Inr (ers_table (ws @ map (\<lambda>i. FloatCell (as_float (w ! i))) [0..<len_table t])
                          (es @ map (\<lambda>i. FloatCell (as_float (wm ! i))) [0..<len_table t])
                          (ds @ map (\<lambda>i. FloatCell (as_float (yv ! i))) [0..<len_table t])
                          (des @ map (\<lambda>i. FloatCell (as_float (ye ! i))) [0..<len_table t])
                          (os @ replicate (len_table t) (IntCell k)))"
    by simp
  show ?thesis
    by (intro exI conjI, rule r) simp
qed

lemma length_filter_zip_map:
  "length col = length ws \<Longrightarrow>
   length (filter snd (zip col (map P ws))) = length (filter P ws)"
  by (induction col ws rule: list_induct2) simp_all

lemma map_of_select_rows:
  "map_of (select_rows t keep) name =
     map_option (\<lambda>col. map fst (filter snd (zip col keep))) (map_of t name)"
  by (simp add: select_rows_def map_of_map)

lemma has_columns_select_rows: "has_columns (select_rows t keep) = has_columns t"
  by (simp add: has_columns_def map_of_select_rows)

lemma len_table_select_rows:
  assumes "table_ok t" "map_of t ''wave'' = Some ws"
  shows "len_table (select_rows t (map P ws)) = length (filter P ws)"
proof (cases t)
  case Nil
  with assms show ?thesis by simp
next
  case (Cons p rest)
  obtain n col where p: "p = (n, col)" by (cases p)
  have "length col = len_table t" using Cons p by (simp add: len_table_def)
  then have "length col = length ws" using table_ok_column[OF assms] by simp
  then show ?thesis using Cons p
    by (simp add: select_rows_def len_table_def length_filter_zip_map)
qed

lemma table_ok_select_rows:
  assumes "table_ok t" "map_of t ''wave'' = Some ws"
  shows "table_ok (select_rows t (map P ws))"
proof -
  have "length (map fst (filter snd (zip col (map P ws)))) = length (filter P ws)"
    if "(n, col) \<in> set t" for n col
  proof -
    have "length col = len_table t" using assms(1) that by (auto simp: table_ok_def list_all_iff)
    then have "length col = length ws" using table_ok_column[OF assms] by simp
    then show ?thesis by (simp add: length_filter_zip_map)
  qed
  then show ?thesis
    unfolding table_ok_def len_table_select_rows[OF assms]
    by (auto simp: list_all_iff select_rows_def)
qed

lemma len_table_ers: "len_table (ers_table ws es ds des os) = length ws"
  by (simp add: len_table_def ers_table_def)

lemma order_ers: "map_of (ers_table ws es ds des os) ''order'' = Some os"
  by (simp add: ers_table_def)

lemma new_tab_ers: "new_tab = ers_table [] [] [] [] []"
  by (simp add: new_tab_def ers_table_def)

text \<open>
  Claim C4. For two input tables that have the four expected columns, the call
  succeeds, writes the table it returns, and that table has as many rows as the
  first table plus the rows of the second whose \<open>wave\<close> is strictly below 0.9; its
  \<open>order\<close> column is 1 on the rows of the first table, then 2 on those of the second.
\<close>

theorem exotep_to_ers_format_rows_and_order:
  assumes f1: "fs filename1 = Some table1" and f2: "fs filename2 = Some table2"
    and hc1: "has_columns table1" and hc2: "has_columns table2"
    and ok1: "table_ok table1" and ok2: "table_ok table2"
    and w2: "column table2 ''wave'' = Inr wave2"
  shows "\<exists>tab. exotep_to_ers_format fs filename1 filename2 filename
                  = Inr (fs(filename := Some tab), tab) \<and>
               len_table tab
                  = len_table table1 + length (filter below_threshold wave2) \<and>
               column tab ''order''
                  = Inr (replicate (len_table table1) (IntCell 1) @
                         replicate (length (filter below_threshold wave2)) (IntCell 2))"
proof -
  have m2: "map_of table2 ''wave'' = Some wave2"
    using w2 by (simp add: column_def split: option.splits)
  obtain ws1 es1 ds1 des1 where
    t1: "add_rows table1 1 [0..<len_table table1] new_tab =
           Inr (ers_table ws1 es1 ds1 des1 (replicate (len_table table1) (IntCell 1)))"
    and l1: "length ws1 = len_table table1"
    using add_rows_table[OF hc1 ok1, of 1 "[]" "[]" "[]" "[]" "[]"]
    by (auto simp: new_tab_ers)
  let ?short = "select_rows table2 (map below_threshold wave2)"
  have hs: "has_columns ?short" using hc2 by (simp add: has_columns_select_rows)
  have oks: "table_ok ?short" using ok2 m2 by (rule table_ok_select_rows)
  have ls: "len_table ?short = length (filter below_threshold wave2)"
    using ok2 m2 by (rule len_table_select_rows)
  obtain ws2 es2 ds2 des2 where
    t2: "add_rows ?short 2 [0..<len_table ?short]
           (ers_table ws1 es1 ds1 des1 (replicate (len_table table1) (IntCell 1))) =
           Inr (ers_table (ws1 @ ws2) (es1 @ es2) (ds1 @ ds2) (des1 @ des2)
                 (replicate (len_table table1) (IntCell 1) @
                  replicate (len_table ?short) (IntCell 2)))"
    and l2: "length ws2 = len_table ?short"
    using add_rows_table[OF hs oks, of 2 ws1 es1 ds1 des1
        "replicate (len_table table1) (IntCell 1)"]
    by auto
  have same: "(\<lambda>w. f_less (as_float w) (Num (9 / 10))) = below_threshold"
    by (rule ext) (simp add: below_threshold_def)
  let ?tab = "ers_table (ws1 @ ws2) (es1 @ es2) (ds1 @ ds2) (des1 @ des2)
                 (replicate (len_table table1) (IntCell 1) @
                  replicate (len_table ?short) (IntCell 2))"
  have res: "exotep_to_ers_format fs filename1 filename2 filename
               = Inr (fs(filename := Some ?tab), ?tab)"
    unfolding exotep_to_ers_format_def Table_read_def f1 f2 Let_def same
    by (simp add: t1 w2 t2)
  have "len_table ?tab = len_table table1 + length (filter below_threshold wave2)"
    using l1 l2 ls by (simp add: len_table_ers)
  moreover have "column ?tab ''order''
                  = Inr (replicate (len_table table1) (IntCell 1) @
                         replicate (length (filter below_threshold wave2)) (IntCell 2))"
    using ls by (simp add: column_def order_ers)
  ultimately show ?thesis using res by blast
qed


theorem exotep_to_ers_format_rows_and_order_witness:
  "two_files table_a table_b ''o1.csv'' = Some table_a \<and>
   two_files table_a table_b ''o2.csv'' = Some table_b \<and>
   has_columns table_a \<and> has_columns table_b \<and> table_ok table_a \<and> table_ok table_b \<and>
   column table_b ''wave''
     = Inr [FloatCell (Num (7 / 10)), FloatCell (Num (19 / 20)), FloatCell (Num (4 / 5))] \<and>
   (\<exists>tab. exotep_to_ers_format (two_files table_a table_b) ''o1.csv'' ''o2.csv'' ''out.csv''
             = Inr ((two_files table_a table_b)(''out.csv'' := Some tab), tab) \<and>
          len_table tab = 4 \<and>
          column tab ''order'' = Inr [IntCell 1, IntCell 1, IntCell 2, IntCell 2])"
proof -
  have h1: "two_files table_a table_b ''o1.csv'' = Some table_a"
    and h2: "two_files table_a table_b ''o2.csv'' = Some table_b"
    by (simp_all add: two_files_def)
  have h3: "has_columns table_a" and h4: "has_columns table_b"
    by (simp_all add: has_columns_def expected_columns_def table_a_def table_b_def)
  have h5: "table_ok table_a" and h6: "table_ok table_b"
    by (simp_all add: table_ok_def len_table_def table_a_def table_b_def)
  have h7: "column table_b ''wave''
     = Inr [FloatCell (Num (7 / 10)), FloatCell (Num (19 / 20)), FloatCell (Num (4 / 5))]"
    by (simp add: column_def table_b_def)
  have n: "len_table table_a = 2"
    by (simp add: len_table_def table_a_def)
  have k: "length (filter below_threshold
             [FloatCell (Num (7 / 10)), FloatCell (Num (19 / 20)), FloatCell (Num (4 / 5))]) = 2"
    by (simp add: below_threshold_def)
  have r: "replicate 2 (IntCell 1) @ replicate 2 (IntCell 2)
             = [IntCell 1, IntCell 1, IntCell 2, IntCell 2]"
    by (simp add: numeral_2_eq_2)
  from exotep_to_ers_format_rows_and_order[where fs = "two_files table_a table_b" and filename = "''out.csv''",
      OF h1 h2 h3 h4 h5 h6 h7]
  show ?thesis using h1 h2 h3 h4 h5 h6 h7 unfolding n k r by simp
qed

section \<open>A table that lacks a column\<close>

lemma add_rows_missing:
  assumes ok: "table_ok t" and miss: "missing_column t = Some c" and i: "i < len_table t"
  shows "add_rows t k (i # is) tab = Inl (KeyError c)"
proof -
  have present: "cell_at t name i = Inr (col ! i)" if "map_of t name = Some col" for name col
    using that table_ok_column[OF ok that] i by (simp add: cell_at_Some)
  from miss consider
      (a) "map_of t ''wave'' = None" "c = ''wave''"
    | (b) w where "map_of t ''wave'' = Some w" "map_of t ''waveMin'' = None" "c = ''waveMin''"
    | (c) w wm where "map_of t ''wave'' = Some w" "map_of t ''waveMin'' = Some wm"
        "map_of t ''yval'' = None" "c = ''yval''"
    | (d) w wm yv where "map_of t ''wave'' = Some w" "map_of t ''waveMin'' = Some wm"
        "map_of t ''yval'' = Some yv" "map_of t ''yerrLow'' = None" "c = ''yerrLow''"
    by (auto simp: missing_column_def expected_columns_def split: if_splits)
  then show ?thesis
  proof cases
    case a
    then show ?thesis by (simp add: cell_at_None)
  next
    case b
    then show ?thesis by (simp add: cell_at_None present)
  next
    case c
    then show ?thesis by (simp add: cell_at_None present)
  next
    case d
    then show ?thesis by (simp add: cell_at_None present)
  qed
qed

lemma missing_column_select_rows: "missing_column (select_rows t keep) = missing_column t"
  by (simp add: missing_column_def map_of_select_rows)

lemma missing_wave: "map_of t ''wave'' = None \<Longrightarrow> missing_column t = Some ''wave''"
  by (simp add: missing_column_def expected_columns_def)

text \<open>
  Claim C5, as amended. The function has no check of the tables' columns. A column
  that a table lacks surfaces as the table library's key-lookup error (KeyError,
  carrying the column's name) when the column is read: for the first table when it
  has at least one row, the error names the first missing column in the order
  \<open>wave\<close>, \<open>waveMin\<close>, \<open>yval\<close>, \<open>yerrLow\<close>; for the second table (the first being
  complete) likewise, when the missing column is \<open>wave\<close> or at least one of its rows
  has \<open>wave\<close> below 0.9.
\<close>

theorem exotep_to_ers_format_missing_column:
  assumes f1: "fs filename1 = Some table1" and f2: "fs filename2 = Some table2"
    and ok1: "table_ok table1" and ok2: "table_ok table2"
  shows "(0 < len_table table1 \<and> missing_column table1 = Some c \<longrightarrow>
            exotep_to_ers_format fs filename1 filename2 filename = Inl (KeyError c)) \<and>
         (has_columns table1 \<and> missing_column table2 = Some c \<and>
            (c = ''wave'' \<or> 0 < rows_below table2) \<longrightarrow>
            exotep_to_ers_format fs filename1 filename2 filename = Inl (KeyError c))"
proof (intro conjI impI)
  assume a: "0 < len_table table1 \<and> missing_column table1 = Some c"
  then have "[0..<len_table table1] = 0 # [1..<len_table table1]"
    by (simp add: upt_conv_Cons)
  moreover have "add_rows table1 1 (0 # [1..<len_table table1]) new_tab = Inl (KeyError c)"
    using a by (intro add_rows_missing ok1) simp_all
  ultimately show "exotep_to_ers_format fs filename1 filename2 filename = Inl (KeyError c)"
    by (simp add: exotep_to_ers_format_def Table_read_def f1 f2)
next
  assume a: "has_columns table1 \<and> missing_column table2 = Some c \<and>
               (c = ''wave'' \<or> 0 < rows_below table2)"
  obtain ws1 es1 ds1 des1 where
    t1: "add_rows table1 1 [0..<len_table table1] new_tab =
           Inr (ers_table ws1 es1 ds1 des1 (replicate (len_table table1) (IntCell 1)))"
    using add_rows_table[OF _ ok1, of 1 "[]" "[]" "[]" "[]" "[]"] a
    by (auto simp: new_tab_ers)
  have same: "(\<lambda>w. f_less (as_float w) (Num (9 / 10))) = below_threshold"
    by (rule ext) (simp add: below_threshold_def)
  show "exotep_to_ers_format fs filename1 filename2 filename = Inl (KeyError c)"
  proof (cases "map_of table2 ''wave''")
    case None
    then have "c = ''wave''" using a missing_wave by fastforce
    with None show ?thesis
      by (simp add: exotep_to_ers_format_def Table_read_def f1 f2 t1 column_def)
  next
    case (Some wave2)
    let ?short = "select_rows table2 (map below_threshold wave2)"
    have "c \<noteq> ''wave''" using a Some
      by (auto simp: missing_column_def expected_columns_def split: if_splits)
    then have pos: "0 < len_table ?short"
      using a Some len_table_select_rows[OF ok2 Some, of below_threshold]
      by (simp add: rows_below_def)
    then have "[0..<len_table ?short] = 0 # [1..<len_table ?short]"
      by (simp add: upt_conv_Cons)
    moreover have "add_rows ?short 2 (0 # [1..<len_table ?short])
                     (ers_table ws1 es1 ds1 des1 (replicate (len_table table1) (IntCell 1)))
                   = Inl (KeyError c)"
      using a pos table_ok_select_rows[OF ok2 Some, of below_threshold]
      by (intro add_rows_missing) (simp_all add: missing_column_select_rows)
    ultimately show ?thesis
      unfolding exotep_to_ers_format_def Table_read_def f1 f2 Let_def same
      by (simp add: t1 column_def Some)
  qed
qed

theorem exotep_to_ers_format_missing_column_witness:
  "two_files table_no_waveMin table_b ''o1.csv'' = Some table_no_waveMin \<and>
   two_files table_no_waveMin table_b ''o2.csv'' = Some table_b \<and>
   table_ok table_no_waveMin \<and> table_ok table_b \<and>
   0 < len_table table_no_waveMin \<and> missing_column table_no_waveMin = Some ''waveMin'' \<and>
   exotep_to_ers_format (two_files table_no_waveMin table_b) ''o1.csv'' ''o2.csv'' ''out.csv''
     = Inl (KeyError ''waveMin'') \<and>
   two_files table_a table_no_yval ''o1.csv'' = Some table_a \<and>
   two_files table_a table_no_yval ''o2.csv'' = Some table_no_yval \<and>
   table_ok table_a \<and> table_ok table_no_yval \<and>
   has_columns table_a \<and> missing_column table_no_yval = Some ''yval'' \<and>
   0 < rows_below table_no_yval \<and>
   exotep_to_ers_format (two_files table_a table_no_yval) ''o1.csv'' ''o2.csv'' ''out.csv''
     = Inl (KeyError ''yval'')"
proof -
  have a1: "two_files table_no_waveMin table_b ''o1.csv'' = Some table_no_waveMin"
    and a2: "two_files table_no_waveMin table_b ''o2.csv'' = Some table_b"
    and b1: "two_files table_a table_no_yval ''o1.csv'' = Some table_a"
    and b2: "two_files table_a table_no_yval ''o2.csv'' = Some table_no_yval"
    by (simp_all add: two_files_def)
  have ok: "table_ok table_no_waveMin" "table_ok table_b" "table_ok table_a"
    "table_ok table_no_yval"
    by (simp_all add: table_ok_def len_table_def table_no_waveMin_def table_b_def
          table_a_def table_no_yval_def)
  have p1: "0 < len_table table_no_waveMin \<and> missing_column table_no_waveMin = Some ''waveMin''"
    by (simp add: len_table_def missing_column_def expected_columns_def table_no_waveMin_def)
  have p2: "has_columns table_a \<and> missing_column table_no_yval = Some ''yval'' \<and>
            0 < rows_below table_no_yval"
    by (simp add: has_columns_def missing_column_def expected_columns_def table_a_def
          table_no_yval_def rows_below_def below_threshold_def)
  from exotep_to_ers_format_missing_column[where fs = "two_files table_no_waveMin table_b" and filename = "''out.csv''"
      and c = "''waveMin''", OF a1 a2 ok(1) ok(2)]
    exotep_to_ers_format_missing_column[where fs = "two_files table_a table_no_yval" and filename = "''out.csv''"
      and c = "''yval''", OF b1 b2 ok(3) ok(4)]
  show ?thesis using a1 a2 b1 b2 ok p1 p2 by simp
qed

text \<open>
  Claim C5 as stated fails: a first table that lacks \<open>waveMin\<close> makes the call raise
  the key-lookup error \<open>KeyError('waveMin')\<close>, not a schema-mismatch error; and a first
  table with no rows that lacks every expected column raises nothing at all.
\<close>

theorem exotep_to_ers_format_schema_counterexample:
  "exotep_to_ers_format (two_files table_no_waveMin table_b) ''o1.csv'' ''o2.csv'' ''out.csv''
     = Inl (KeyError ''waveMin'') \<and>
   exotep_to_ers_format (two_files table_header_only table_c) ''o1.csv'' ''o2.csv'' ''out.csv''
     = Inr ((two_files table_header_only table_c)
              (''out.csv'' := Some (ers_table [FloatCell (Num (1 / 2))]
                 [FloatCell (Num (1 / 100))] [FloatCell (Num 90)] [FloatCell (Num 5)]
                 [IntCell 2])),
            ers_table [FloatCell (Num (1 / 2))] [FloatCell (Num (1 / 100))]
              [FloatCell (Num 90)] [FloatCell (Num 5)] [IntCell 2])"
proof -
  have "exotep_to_ers_format (two_files table_no_waveMin table_b) ''o1.csv'' ''o2.csv''
          ''out.csv'' = Inl (KeyError ''waveMin'')"
    by (simp add: exotep_to_ers_format_def Table_read_def two_files_def table_no_waveMin_def
          len_table_def cell_at_def column_def)
  moreover have "add_rows (select_rows table_c (map (\<lambda>w. f_less (as_float w) (Num (9 / 10)))
                    [FloatCell (Num (1 / 2))])) 2 [0] new_tab
        = Inr (ers_table [FloatCell (Num (1 / 2))] [FloatCell (Num (1 / 100))]
              [FloatCell (Num 90)] [FloatCell (Num 5)] [IntCell 2])"
    by (simp add: select_rows_def table_c_def cell_at_def column_def new_tab_def add_row_def
          ers_table_def)
  moreover have "len_table (select_rows table_c (map (\<lambda>w. f_less (as_float w) (Num (9 / 10)))
                    [FloatCell (Num (1 / 2))])) = 1"
    by (simp add: select_rows_def table_c_def len_table_def)
  ultimately show ?thesis
    by (simp add: exotep_to_ers_format_def Table_read_def two_files_def table_header_only_def
          len_table_def column_def table_c_def[THEN arg_cong, of "\<lambda>t. map_of t ''wave''"])
qed

section \<open>The wrappers\<close>

text \<open>
  Claim C8. \<open>get_MAD_sigma\<close> calls the library's \<open>get_mad_sigma\<close> on its arguments and
  never returns the value computed: whenever the library call returns, the wrapper
  returns \<open>None\<close> (and an exception of the library call propagates).
\<close>

theorem get_MAD_sigma_returns_None:
  "(\<forall>v. get_MAD_sigma ts_get_mad_sigma x median \<noteq> Inr (Some v)) \<and>
   (\<forall>mad. ts_get_mad_sigma x median = Inr mad \<longrightarrow>
      get_MAD_sigma ts_get_mad_sigma x median = Inr None) \<and>
   (\<forall>e. ts_get_mad_sigma x median = Inl e \<longrightarrow>
      get_MAD_sigma ts_get_mad_sigma x median = Inl e)"
  by (simp add: get_MAD_sigma_def split: sum.splits)

theorem get_MAD_sigma_returns_None_witness:
  "(\<lambda>(a::int list) (m::int). Inr (length a + nat m) :: exn + nat) [1, 2, 3] 2 = Inr 5 \<and>
   get_MAD_sigma (\<lambda>(a::int list) (m::int). Inr (length a + nat m) :: exn + nat) [1, 2, 3] 2
     = Inr None \<and>
   (\<lambda>(a::int list) (m::int). Inl TypeError :: exn + nat) [1, 2, 3] 2 = Inl TypeError \<and>
   get_MAD_sigma (\<lambda>(a::int list) (m::int). Inl TypeError :: exn + nat) [1, 2, 3] 2
     = Inl TypeError"
  using get_MAD_sigma_returns_None[of "\<lambda>(a::int list) (m::int). Inr (length a + nat m) :: exn + nat" "[1, 2, 3]" 2]
    get_MAD_sigma_returns_None[of "\<lambda>(a::int list) (m::int). Inl TypeError :: exn + nat" "[1, 2, 3]" 2]
  by simp

lemma resolve_wavelength_unbound:
  "resolve [] ''wavelength'' = Inl (NameError ''wavelength'')"
  by (simp add: resolve_def utils_globals_def builtin_names_def)

text \<open>
  Claim C9. In the module as written, every call of \<open>bin_at_resolution\<close> raises the
  undefined-name error for \<open>wavelength\<close> before the library function is called: the
  parameter is \<open>wavelengths\<close>. No call returns the three binned outputs.
\<close>

theorem bin_at_resolution_always_NameError:
  "bin_at_resolution [] ts_bin_at_resolution wavelengths depths R method
     = Inl (NameError ''wavelength'')"
  by (simp add: bin_at_resolution_def resolve_wavelength_unbound)

section \<open>Rounding to binary64\<close>






























section \<open>stacked_transits on a constant flux\<close>

































end
